theory Spec2Isabelle
  imports Main "HOL-Library.Word"
begin

section \<open>Values exchanged with the outside world\<close>

text \<open>
  A JSON value as the program holds it: what \<^verbatim>\<open>request.get_json()\<close> returns for a
  parsed body and what is handed to \<^verbatim>\<open>jsonify\<close>. \<^verbatim>\<open>None\<close> is \<open>JNull\<close>, a Python
  \<^verbatim>\<open>int\<close> is \<open>JInt\<close>, and a Python \<^verbatim>\<open>float\<close> is \<open>JFloat\<close> with its IEEE-754 binary64
  bit pattern: every number with a fraction or an exponent in a body is parsed to one,
  the infinities and NaN included (a literal beyond the range, such as \<^verbatim>\<open>1e400\<close>, is
  parsed to infinity). The handlers never compute with a number; they only pass it on.
  An object is the list of its items, in the order in which a \<^verbatim>\<open>dict\<close> keeps them.
\<close>

datatype json =
    JNull
  | JBool bool
  | JInt int
  | JFloat "64 word"
  | JStr string
  | JArr "json list"
  | JObj "(string \<times> json) list"

text \<open>
  A raised Python exception, as far as the handlers can observe it: its text under
  \<^verbatim>\<open>str(e)\<close>. \<open>HTTPException\<close> is the framework's family of errors that carry a status
  code (a malformed body makes \<^verbatim>\<open>request.get_json()\<close> raise the one with code 400).
  Both are subclasses of \<^verbatim>\<open>Exception\<close>, which is what the handlers catch.
\<close>

datatype exn =
    Exception string
  | HTTPException nat string

fun str :: "exn \<Rightarrow> string" where
  "str (Exception m) = m"
| "str (HTTPException c m) = m"

text \<open>A response: the JSON body built by \<^verbatim>\<open>jsonify\<close> and the status code beside it.\<close>

record response =
  status_code :: nat
  body :: json

definition jsonify :: "(string \<times> json) list \<Rightarrow> nat \<Rightarrow> response" where
  "jsonify kvs code = \<lparr>status_code = code, body = JObj kvs\<rparr>"

text \<open>The field of an object payload, \<open>None\<close> when the key is missing or the body is no object.\<close>

fun field :: "json \<Rightarrow> string \<Rightarrow> json option" where
  "field (JObj kvs) k = map_of kvs k"
| "field _ k = None"

section \<open>Collaborators\<close>

text \<open>
  The two client libraries are outside the repository. A handle is modelled by what each
  of the calls the handlers make on it does: return a value or raise. Every handler makes
  each call at most once, so one outcome per call is all a request can observe.
  With \<^verbatim>\<open>decode_responses=True\<close> the cache lookup returns a string, or \<^verbatim>\<open>None\<close>
  for a key the store does not hold.
\<close>

record redis =
  ping :: "exn + bool"
  get :: "string \<Rightarrow> exn + string option"

record pg_cursor =
  execute :: "string \<Rightarrow> exn + unit"
  close :: "exn + unit"

record postgres =
  cursor :: "exn + pg_cursor"

text \<open>A calendar time as \<^verbatim>\<open>datetime.utcnow()\<close> returns it.\<close>

record datetime =
  year :: nat
  month :: nat
  day :: nat
  hour :: nat
  minute :: nat
  second :: nat
  microsecond :: nat

text \<open>
  The process-wide state the handlers read: the two module globals (\<open>None\<close> until
  \<^verbatim>\<open>init_connections\<close> has set them), the environment and the clock.
\<close>

record globals =
  redis_client :: "redis option"
  postgres_conn :: "postgres option"
  environ :: "string \<rightharpoonup> string"
  utcnow :: datetime

text \<open>The part of the incoming request the \<^verbatim>\<open>users\<close> handler reads.\<close>

record request =
  request_method :: string
  get_json :: "exn + json"

section \<open>Effects\<close>

text \<open>
  What a handler does besides returning: the calls it makes on a collaborator and the
  lines it logs, in order. A computation is the list of these events together with its
  result, \<open>Inl\<close> for an exception that leaves it.
\<close>

datatype event =
    RedisPing
  | RedisGet string
  | PgCursor
  | PgExecute string
  | PgClose
  | LogError string

type_synonym 'a eff = "event list \<times> (exn + 'a)"

definition ret :: "'a \<Rightarrow> 'a eff" where
  "ret x = ([], Inr x)"

definition call :: "event \<Rightarrow> exn + 'a \<Rightarrow> 'a eff" where
  "call ev outcome = ([ev], outcome)"

definition bind :: "'a eff \<Rightarrow> ('a \<Rightarrow> 'b eff) \<Rightarrow> 'b eff" where
  "bind m f =
     (case m of
        (t, Inl e) \<Rightarrow> (t, Inl e)
      | (t, Inr x) \<Rightarrow> (case f x of (t', r) \<Rightarrow> (t @ t', r)))"

definition try_except :: "'a eff \<Rightarrow> (exn \<Rightarrow> 'a eff) \<Rightarrow> 'a eff" where
  "try_except m handler =
     (case m of
        (t, Inl e) \<Rightarrow> (case handler e of (t', r) \<Rightarrow> (t @ t', r))
      | (t, Inr x) \<Rightarrow> (t, Inr x))"

section \<open>The readiness probe\<close>

text \<open>Lines 61-62: the cache is pinged when the handle is set; the reply is dropped.\<close>

definition check_redis :: "redis option \<Rightarrow> unit eff" where
  "check_redis rc =
     (case rc of
        None \<Rightarrow> ret ()
      | Some r \<Rightarrow> bind (call RedisPing (ping r)) (\<lambda>_. ret ()))"

text \<open>Lines 65-68: a cursor, one query, and the cursor closed, when the handle is set.\<close>

definition check_postgres :: "postgres option \<Rightarrow> unit eff" where
  "check_postgres pc =
     (case pc of
        None \<Rightarrow> ret ()
      | Some p \<Rightarrow>
          bind (call PgCursor (cursor p)) (\<lambda>c.
          bind (call (PgExecute ''SELECT 1'') (execute c ''SELECT 1'')) (\<lambda>_.
          call PgClose (close c))))"

definition readiness_check :: "globals \<Rightarrow> response eff" where
  "readiness_check ctx =
     try_except
       (bind (check_redis (redis_client ctx)) (\<lambda>_.
        bind (check_postgres (postgres_conn ctx)) (\<lambda>_.
        ret (jsonify [(''status'', JStr ''ready'')] 200))))
       (\<lambda>e.
        bind (call (LogError (''Readiness check failed: '' @ str e)) (Inr ())) (\<lambda>_.
        ret (jsonify [(''status'', JStr ''not ready''), (''error'', JStr (str e))] 503)))"

text \<open>The events that reach the cache store and those that reach the relational store.\<close>

definition cache_event :: "event \<Rightarrow> bool" where
  "cache_event ev = (case ev of RedisPing \<Rightarrow> True | RedisGet _ \<Rightarrow> True | _ \<Rightarrow> False)"

definition relational_event :: "event \<Rightarrow> bool" where
  "relational_event ev =
     (case ev of PgCursor \<Rightarrow> True | PgExecute _ \<Rightarrow> True | PgClose \<Rightarrow> True | _ \<Rightarrow> False)"

section \<open>The liveness probe\<close>

text \<open>
  \<^verbatim>\<open>datetime.isoformat()\<close> of the standard library: the fields in decimal, padded with
  zeros to 4, 2, 2, 2, 2 and 2 places, and the microseconds to 6 places when they are
  not zero.
\<close>

definition digit :: "nat \<Rightarrow> char" where
  "digit n = ''0123456789'' ! (n mod 10)"

fun decimal :: "nat \<Rightarrow> string" where
  "decimal n = (if n < 10 then [digit n] else decimal (n div 10) @ [digit n])"

declare decimal.simps [simp del]

definition zero_pad :: "nat \<Rightarrow> nat \<Rightarrow> string" where
  "zero_pad w n = replicate (w - length (decimal n)) CHR ''0'' @ decimal n"

definition isoformat :: "datetime \<Rightarrow> string" where
  "isoformat d =
     zero_pad 4 (year d) @ ''-'' @ zero_pad 2 (month d) @ ''-'' @ zero_pad 2 (day d) @
     ''T'' @ zero_pad 2 (hour d) @ '':'' @ zero_pad 2 (minute d) @ '':'' @
     zero_pad 2 (second d) @
     (if microsecond d = 0 then [] else ''.'' @ zero_pad 6 (microsecond d))"

text \<open>\<^verbatim>\<open>os.getenv(name, default)\<close>.\<close>

definition getenv :: "(string \<rightharpoonup> string) \<Rightarrow> string \<Rightarrow> string \<Rightarrow> string" where
  "getenv env name dflt = (case env name of None \<Rightarrow> dflt | Some v \<Rightarrow> v)"

definition health_check :: "globals \<Rightarrow> response eff" where
  "health_check ctx =
     ret (jsonify
       [(''status'', JStr ''healthy''),
        (''timestamp'', JStr (isoformat (utcnow ctx))),
        (''version'', JStr (getenv (environ ctx) ''APP_VERSION'' ''1.0.0''))] 200)"

section \<open>The users endpoint\<close>

text \<open>
  The handler branches on the method and has no final \<^verbatim>\<open>else\<close>: for any other method
  it falls off the end and returns \<^verbatim>\<open>None\<close>. \<^verbatim>\<open>request.get_json()\<close> is called outside
  any \<^verbatim>\<open>try\<close>, so what it raises leaves the handler.
\<close>

definition users :: "globals \<Rightarrow> request \<Rightarrow> response option eff" where
  "users ctx req =
     (if request_method req = ''GET'' then
        ret (Some (jsonify
          [(''users'', JArr
             [JObj [(''id'', JInt 1), (''name'', JStr ''John Doe''),
                    (''email'', JStr ''john@example.com'')],
              JObj [(''id'', JInt 2), (''name'', JStr ''Jane Smith''),
                    (''email'', JStr ''jane@example.com'')]])] 200))
      else if request_method req = ''POST'' then
        bind ([], get_json req) (\<lambda>user_data.
        ret (Some (jsonify
          [(''message'', JStr ''User created successfully''),
           (''user'', user_data)] 201)))
      else ret None)"

section \<open>The cache lookup\<close>

text \<open>Python's truth value of what the lookup returned: \<^verbatim>\<open>None\<close> and \<^verbatim>\<open>''\<close> are false.\<close>

definition truthy :: "string option \<Rightarrow> bool" where
  "truthy value = (case value of None \<Rightarrow> False | Some s \<Rightarrow> s \<noteq> [])"

definition json_of :: "string option \<Rightarrow> json" where
  "json_of value = (case value of None \<Rightarrow> JNull | Some s \<Rightarrow> JStr s)"

definition get_cache :: "globals \<Rightarrow> string \<Rightarrow> response eff" where
  "get_cache ctx key =
     try_except
       (case redis_client ctx of
          Some r \<Rightarrow>
            bind (call (RedisGet key) (get r key)) (\<lambda>value.
            if truthy value then
              ret (jsonify [(''key'', JStr key), (''value'', json_of value)] 200)
            else
              ret (jsonify [(''error'', JStr ''Key not found'')] 404))
        | None \<Rightarrow> ret (jsonify [(''error'', JStr ''Redis not available'')] 503))
       (\<lambda>e. ret (jsonify [(''error'', JStr (str e))] 500))"

section \<open>Notions used to state the properties\<close>

text \<open>A payload is an error envelope when it is an object with a string under \<open>error\<close>.\<close>

definition error_envelope :: "response \<Rightarrow> bool" where
  "error_envelope r =
     (case field (body r) ''error'' of Some (JStr s) \<Rightarrow> True | _ \<Rightarrow> False)"

text \<open>
  The response a handler builds itself, if it builds one: none when an exception leaves
  the handler, and none when the handler returns \<^verbatim>\<open>None\<close>. What the caller receives
  then is made by the framework, not by this component.
\<close>

definition built_response :: "exn + response option \<Rightarrow> response option" where
  "built_response out = (case out of Inl e \<Rightarrow> None | Inr r \<Rightarrow> r)"

text \<open>The ranges Python's \<^verbatim>\<open>datetime\<close> keeps its fields in.\<close>

definition valid_datetime :: "datetime \<Rightarrow> bool" where
  "valid_datetime d =
     (1 \<le> year d \<and> year d \<le> 9999 \<and> 1 \<le> month d \<and> month d \<le> 12 \<and>
      1 \<le> day d \<and> day d \<le> 31 \<and> hour d < 24 \<and> minute d < 60 \<and> second d < 60 \<and>
      microsecond d < 1000000)"

definition is_digit :: "char \<Rightarrow> bool" where
  "is_digit c = (c \<in> set ''0123456789'')"

definition digits :: "nat \<Rightarrow> string \<Rightarrow> bool" where
  "digits n s = (length s = n \<and> list_all is_digit s)"

text \<open>
  The extended ISO-8601 form of a date and time: \<^verbatim>\<open>YYYY-MM-DDThh:mm:ss\<close>, with or
  without a fraction of six digits.
\<close>

definition iso8601 :: "string \<Rightarrow> bool" where
  "iso8601 s =
     (digits 4 (take 4 s) \<and> take 1 (drop 4 s) = ''-'' \<and>
      digits 2 (take 2 (drop 5 s)) \<and> take 1 (drop 7 s) = ''-'' \<and>
      digits 2 (take 2 (drop 8 s)) \<and> take 1 (drop 10 s) = ''T'' \<and>
      digits 2 (take 2 (drop 11 s)) \<and> take 1 (drop 13 s) = '':'' \<and>
      digits 2 (take 2 (drop 14 s)) \<and> take 1 (drop 16 s) = '':'' \<and>
      digits 2 (take 2 (drop 17 s)) \<and>
      (drop 19 s = [] \<or> (take 1 (drop 19 s) = ''.'' \<and> digits 6 (drop 20 s))))"

section \<open>Collaborator doubles for the concrete cases\<close>

definition noon :: datetime where
  "noon = \<lparr>year = 2024, month = 5, day = 17, hour = 12, minute = 0, second = 0,
            microsecond = 0\<rparr>"

definition redis_holding :: "(string \<rightharpoonup> string) \<Rightarrow> redis" where
  "redis_holding store = \<lparr>ping = Inr True, get = (\<lambda>k. Inr (store k))\<rparr>"

definition redis_down :: "string \<Rightarrow> redis" where
  "redis_down msg = \<lparr>ping = Inl (Exception msg), get = (\<lambda>k. Inl (Exception msg))\<rparr>"

definition postgres_up :: postgres where
  "postgres_up = \<lparr>cursor = Inr \<lparr>execute = (\<lambda>q. Inr ()), close = Inr ()\<rparr>\<rparr>"

definition postgres_failing :: "string \<Rightarrow> postgres" where
  "postgres_failing msg =
     \<lparr>cursor = Inr \<lparr>execute = (\<lambda>q. Inl (Exception msg)), close = Inr ()\<rparr>\<rparr>"

definition process :: "redis option \<Rightarrow> postgres option \<Rightarrow> globals" where
  "process rc pc =
     \<lparr>redis_client = rc, postgres_conn = pc, environ = Map.empty, utcnow = noon\<rparr>"

section \<open>Readiness\<close>

lemma check_redis_None: "check_redis None = ([], Inr ())"
  by (simp add: check_redis_def ret_def)

lemma check_redis_Some:
  "check_redis (Some r) =
     ([RedisPing], case ping r of Inl e \<Rightarrow> Inl e | Inr b \<Rightarrow> Inr ())"
  by (simp add: check_redis_def bind_def call_def ret_def split: sum.split)

lemma check_postgres_None: "check_postgres None = ([], Inr ())"
  by (simp add: check_postgres_def ret_def)

lemma check_postgres_Some:
  "check_postgres (Some p) =
     (case cursor p of
        Inl e \<Rightarrow> ([PgCursor], Inl e)
      | Inr c \<Rightarrow>
          (case execute c ''SELECT 1'' of
             Inl e \<Rightarrow> ([PgCursor, PgExecute ''SELECT 1''], Inl e)
           | Inr u \<Rightarrow> ([PgCursor, PgExecute ''SELECT 1'', PgClose], close c)))"
  by (simp add: check_postgres_def bind_def call_def split: sum.split)

lemma readiness_check_unfold:
  "readiness_check ctx =
     (case check_redis (redis_client ctx) of
        (t1, Inl e) \<Rightarrow>
          (t1 @ [LogError (''Readiness check failed: '' @ str e)],
           Inr (jsonify [(''status'', JStr ''not ready''), (''error'', JStr (str e))] 503))
      | (t1, Inr u) \<Rightarrow>
          (case check_postgres (postgres_conn ctx) of
             (t2, Inl e) \<Rightarrow>
               (t1 @ t2 @ [LogError (''Readiness check failed: '' @ str e)],
                Inr (jsonify [(''status'', JStr ''not ready''), (''error'', JStr (str e))] 503))
           | (t2, Inr v) \<Rightarrow>
               (t1 @ t2, Inr (jsonify [(''status'', JStr ''ready'')] 200))))"
  by (simp add: readiness_check_def try_except_def bind_def call_def ret_def
      split: prod.split sum.split)

lemma check_redis_quiet: "ev \<in> set (fst (check_redis rc)) \<Longrightarrow> \<not> relational_event ev"
  by (cases rc) (auto simp: check_redis_None check_redis_Some relational_event_def)

lemma check_postgres_quiet: "ev \<in> set (fst (check_postgres pc)) \<Longrightarrow> \<not> cache_event ev"
  by (cases pc)
     (auto simp: check_postgres_None check_postgres_Some cache_event_def split: sum.splits)

lemma readiness_check_returns:
  "\<exists>r. snd (readiness_check ctx) = Inr r \<and> (status_code r = 200 \<or> status_code r = 503)"
  by (auto simp: readiness_check_unfold jsonify_def split: prod.split sum.split)

text \<open>
  C9. A collaborator whose handle is \<open>None\<close> is not probed: the readiness check makes
  no call on the cache when \<open>redis_client\<close> is unset and none on the relational store
  when \<open>postgres_conn\<close> is unset. With both unset it makes no call at all, logs nothing
  and answers 200 with \<open>{status: ready}\<close>.
\<close>

theorem readiness_skips_unset_handles:
  "(redis_client ctx = None \<longrightarrow>
      (\<forall>ev \<in> set (fst (readiness_check ctx)). \<not> cache_event ev)) \<and>
   (postgres_conn ctx = None \<longrightarrow>
      (\<forall>ev \<in> set (fst (readiness_check ctx)). \<not> relational_event ev)) \<and>
   (redis_client ctx = None \<and> postgres_conn ctx = None \<longrightarrow>
      readiness_check ctx = ([], Inr (jsonify [(''status'', JStr ''ready'')] 200)))"
proof (intro conjI impI ballI)
  fix ev
  assume rc: "redis_client ctx = None" and ev: "ev \<in> set (fst (readiness_check ctx))"
  from ev rc have "ev \<in> set (fst (check_postgres (postgres_conn ctx))) \<or> (\<exists>m. ev = LogError m)"
    by (auto simp: readiness_check_unfold check_redis_None split: prod.splits sum.splits)
  then show "\<not> cache_event ev"
    by (auto dest: check_postgres_quiet simp: cache_event_def)
next
  fix ev
  assume pc: "postgres_conn ctx = None" and ev: "ev \<in> set (fst (readiness_check ctx))"
  from ev pc have "ev \<in> set (fst (check_redis (redis_client ctx))) \<or> (\<exists>m. ev = LogError m)"
    by (auto simp: readiness_check_unfold check_postgres_None split: prod.splits sum.splits)
  then show "\<not> relational_event ev"
    by (auto dest: check_redis_quiet simp: relational_event_def)
next
  assume "redis_client ctx = None \<and> postgres_conn ctx = None"
  then show "readiness_check ctx = ([], Inr (jsonify [(''status'', JStr ''ready'')] 200))"
    by (simp add: readiness_check_unfold check_redis_None check_postgres_None)
qed

theorem readiness_skips_unset_handles_witness:
  "readiness_check (process None None) = ([], Inr (jsonify [(''status'', JStr ''ready'')] 200)) \<and>
   list_all (\<lambda>ev. \<not> cache_event ev) (fst (readiness_check (process None (Some postgres_up)))) \<and>
   list_all (\<lambda>ev. \<not> relational_event ev)
     (fst (readiness_check (process (Some (redis_down ''refused'')) None)))"
  using readiness_skips_unset_handles [of "process None None"]
    readiness_skips_unset_handles [of "process None (Some postgres_up)"]
    readiness_skips_unset_handles [of "process (Some (redis_down ''refused'')) None"]
  by (simp add: process_def list_all_iff)

text \<open>
  C3. The cache is probed first and the relational store second, and the first exception
  ends the probing. When the ping raises, the relational store is not contacted and the
  503 payload carries the text of the ping's exception, whatever the relational store
  would have done. When the cache probe passes and the relational probe raises, the
  payload carries the text of that exception. In both cases one line is logged and the
  payload has one \<open>error\<close> field, holding that single text.
\<close>

theorem readiness_reports_first_failure:
  "(\<forall>r e. redis_client ctx = Some r \<and> ping r = Inl e \<longrightarrow>
      readiness_check ctx =
        ([RedisPing, LogError (''Readiness check failed: '' @ str e)],
         Inr (jsonify [(''status'', JStr ''not ready''), (''error'', JStr (str e))] 503))) \<and>
   (\<forall>e. snd (check_redis (redis_client ctx)) = Inr () \<and>
        snd (check_postgres (postgres_conn ctx)) = Inl e \<longrightarrow>
      readiness_check ctx =
        (fst (check_redis (redis_client ctx)) @ fst (check_postgres (postgres_conn ctx)) @
           [LogError (''Readiness check failed: '' @ str e)],
         Inr (jsonify [(''status'', JStr ''not ready''), (''error'', JStr (str e))] 503))) \<and>
   (\<forall>r b p. redis_client ctx = Some r \<and> ping r = Inr b \<and> postgres_conn ctx = Some p \<longrightarrow>
      take 2 (fst (readiness_check ctx)) = [RedisPing, PgCursor])"
proof (intro conjI allI impI)
  fix r e
  assume "redis_client ctx = Some r \<and> ping r = Inl e"
  then show "readiness_check ctx =
        ([RedisPing, LogError (''Readiness check failed: '' @ str e)],
         Inr (jsonify [(''status'', JStr ''not ready''), (''error'', JStr (str e))] 503))"
    by (simp add: readiness_check_unfold check_redis_Some)
next
  fix e
  assume "snd (check_redis (redis_client ctx)) = Inr () \<and>
        snd (check_postgres (postgres_conn ctx)) = Inl e"
  then show "readiness_check ctx =
        (fst (check_redis (redis_client ctx)) @ fst (check_postgres (postgres_conn ctx)) @
           [LogError (''Readiness check failed: '' @ str e)],
         Inr (jsonify [(''status'', JStr ''not ready''), (''error'', JStr (str e))] 503))"
    by (cases "check_redis (redis_client ctx)"; cases "check_postgres (postgres_conn ctx)")
       (simp add: readiness_check_unfold)
next
  fix r b p
  assume "redis_client ctx = Some r \<and> ping r = Inr b \<and> postgres_conn ctx = Some p"
  then show "take 2 (fst (readiness_check ctx)) = [RedisPing, PgCursor]"
    by (simp add: readiness_check_unfold check_redis_Some check_postgres_Some
        split: prod.split sum.split)
qed

theorem readiness_reports_first_failure_witness:
  "readiness_check (process (Some (redis_down ''cache refused'')) (Some (postgres_failing ''db gone''))) =
     ([RedisPing, LogError ''Readiness check failed: cache refused''],
      Inr (jsonify [(''status'', JStr ''not ready''), (''error'', JStr ''cache refused'')] 503)) \<and>
   readiness_check (process (Some (redis_holding Map.empty)) (Some (postgres_failing ''db gone''))) =
     ([RedisPing, PgCursor, PgExecute ''SELECT 1'', LogError ''Readiness check failed: db gone''],
      Inr (jsonify [(''status'', JStr ''not ready''), (''error'', JStr ''db gone'')] 503)) \<and>
   take 2 (fst (readiness_check (process (Some (redis_holding Map.empty)) (Some postgres_up)))) =
     [RedisPing, PgCursor]"
  using readiness_reports_first_failure
      [of "process (Some (redis_down ''cache refused'')) (Some (postgres_failing ''db gone''))"]
    readiness_reports_first_failure
      [of "process (Some (redis_holding Map.empty)) (Some (postgres_failing ''db gone''))"]
    readiness_reports_first_failure
      [of "process (Some (redis_holding Map.empty)) (Some postgres_up)"]
  by (auto simp: process_def redis_down_def redis_holding_def postgres_failing_def postgres_up_def
      check_redis_Some check_postgres_Some)

text \<open>
  C1, as stated, at a ping that raises an exception whose text is empty: the answer is
  503 and its \<open>error\<close> string is empty.
\<close>

theorem readiness_error_may_be_empty:
  "readiness_check (process (Some (redis_down '''')) (Some postgres_up)) =
     ([RedisPing, LogError ''Readiness check failed: ''],
      Inr (jsonify [(''status'', JStr ''not ready''), (''error'', JStr '''')] 503)) \<and>
   ping (redis_down '''') = Inl (Exception '''')"
  by (simp add: readiness_check_unfold check_redis_Some process_def redis_down_def)

text \<open>
  C1, amended. When both probes pass the readiness check answers 200 with
  \<open>{status: ready}\<close>. When the cache probe raises, or it passes and the relational probe
  raises, the answer is 503 and its \<open>error\<close> field is the text of that exception: it is
  non-empty whenever that text is.
\<close>

theorem readiness_check_outcome:
  "(snd (check_redis (redis_client ctx)) = Inr () \<and>
    snd (check_postgres (postgres_conn ctx)) = Inr () \<longrightarrow>
      snd (readiness_check ctx) = Inr (jsonify [(''status'', JStr ''ready'')] 200)) \<and>
   (\<forall>e. snd (check_redis (redis_client ctx)) = Inl e \<or>
        (snd (check_redis (redis_client ctx)) = Inr () \<and>
         snd (check_postgres (postgres_conn ctx)) = Inl e) \<longrightarrow>
      (\<exists>r. snd (readiness_check ctx) = Inr r \<and> status_code r = 503 \<and>
           field (body r) ''error'' = Some (JStr (str e)) \<and>
           (str e \<noteq> [] \<longrightarrow> field (body r) ''error'' \<noteq> Some (JStr [])))) \<and>
   (\<forall>r b p c. redis_client ctx = Some r \<and> ping r = Inr b \<and> postgres_conn ctx = Some p \<and>
        cursor p = Inr c \<and> execute c ''SELECT 1'' = Inr () \<and> close c = Inr () \<longrightarrow>
      readiness_check ctx =
        ([RedisPing, PgCursor, PgExecute ''SELECT 1'', PgClose],
         Inr (jsonify [(''status'', JStr ''ready'')] 200)))"
proof (intro conjI allI impI)
  assume "snd (check_redis (redis_client ctx)) = Inr () \<and>
    snd (check_postgres (postgres_conn ctx)) = Inr ()"
  then show "snd (readiness_check ctx) = Inr (jsonify [(''status'', JStr ''ready'')] 200)"
    by (cases "check_redis (redis_client ctx)"; cases "check_postgres (postgres_conn ctx)")
       (simp add: readiness_check_unfold)
next
  fix e
  assume "snd (check_redis (redis_client ctx)) = Inl e \<or>
        (snd (check_redis (redis_client ctx)) = Inr () \<and>
         snd (check_postgres (postgres_conn ctx)) = Inl e)"
  then have "snd (readiness_check ctx) =
      Inr (jsonify [(''status'', JStr ''not ready''), (''error'', JStr (str e))] 503)"
    by (cases "check_redis (redis_client ctx)"; cases "check_postgres (postgres_conn ctx)")
       (auto simp: readiness_check_unfold)
  then show "\<exists>r. snd (readiness_check ctx) = Inr r \<and> status_code r = 503 \<and>
           field (body r) ''error'' = Some (JStr (str e)) \<and>
           (str e \<noteq> [] \<longrightarrow> field (body r) ''error'' \<noteq> Some (JStr []))"
    by (simp add: jsonify_def)
next
  fix r b p c
  assume "redis_client ctx = Some r \<and> ping r = Inr b \<and> postgres_conn ctx = Some p \<and>
        cursor p = Inr c \<and> execute c ''SELECT 1'' = Inr () \<and> close c = Inr ()"
  then show "readiness_check ctx =
        ([RedisPing, PgCursor, PgExecute ''SELECT 1'', PgClose],
         Inr (jsonify [(''status'', JStr ''ready'')] 200))"
    by (simp add: readiness_check_unfold check_redis_Some check_postgres_Some)
qed

theorem readiness_check_outcome_witness:
  "readiness_check (process (Some (redis_holding Map.empty)) (Some postgres_up)) =
     ([RedisPing, PgCursor, PgExecute ''SELECT 1'', PgClose],
      Inr (jsonify [(''status'', JStr ''ready'')] 200)) \<and>
   (\<exists>r. snd (readiness_check (process (Some (redis_down ''Connection refused'')) (Some postgres_up)))
          = Inr r \<and> status_code r = 503 \<and>
        field (body r) ''error'' = Some (JStr ''Connection refused'') \<and>
        field (body r) ''error'' \<noteq> Some (JStr [])) \<and>
   (\<exists>r. snd (readiness_check (process (Some (redis_holding Map.empty))
                 (Some (postgres_failing ''server closed the connection'')))) = Inr r \<and>
        status_code r = 503 \<and>
        field (body r) ''error'' = Some (JStr ''server closed the connection'') \<and>
        field (body r) ''error'' \<noteq> Some (JStr []))"
  using readiness_check_outcome [of "process (Some (redis_holding Map.empty)) (Some postgres_up)"]
    readiness_check_outcome
      [of "process (Some (redis_down ''Connection refused'')) (Some postgres_up)"]
    readiness_check_outcome
      [of "process (Some (redis_holding Map.empty))
             (Some (postgres_failing ''server closed the connection''))"]
  by (auto simp: process_def redis_down_def redis_holding_def postgres_failing_def
      postgres_up_def check_redis_Some check_postgres_Some)

text \<open>
  C4, as stated, at a failing ping: the \<open>status\<close> field of the 503 payload is the
  string \<open>not ready\<close>, written with a space, and not \<open>not_ready\<close>.
\<close>

theorem readiness_status_not_the_enum_value:
  "snd (readiness_check (process (Some (redis_down ''Connection refused'')) None)) =
     Inr (jsonify [(''status'', JStr ''not ready''),
                   (''error'', JStr ''Connection refused'')] 503) \<and>
   field (JObj [(''status'', JStr ''not ready''), (''error'', JStr ''Connection refused'')])
     ''status'' \<noteq> Some (JStr ''not_ready'')"
  by (simp add: readiness_check_unfold check_redis_Some process_def redis_down_def)

text \<open>
  C4, amended. Every answer of the readiness check other than the 200 is a 503 whose
  \<open>status\<close> field is the string \<open>not ready\<close>.
\<close>

theorem readiness_failure_status_field:
  "snd (readiness_check ctx) = Inr r \<Longrightarrow> status_code r \<noteq> 200 \<Longrightarrow>
   status_code r = 503 \<and> field (body r) ''status'' = Some (JStr ''not ready'')"
  by (auto simp: readiness_check_unfold jsonify_def split: prod.splits sum.splits)

theorem readiness_failure_status_field_witness:
  "status_code (jsonify [(''status'', JStr ''not ready''), (''error'', JStr ''db gone'')] 503) = 503 \<and>
   field (body (jsonify [(''status'', JStr ''not ready''), (''error'', JStr ''db gone'')] 503))
     ''status'' = Some (JStr ''not ready'') \<and>
   snd (readiness_check (process None (Some (postgres_failing ''db gone'')))) =
     Inr (jsonify [(''status'', JStr ''not ready''), (''error'', JStr ''db gone'')] 503)"
proof -
  have run: "snd (readiness_check (process None (Some (postgres_failing ''db gone'')))) =
     Inr (jsonify [(''status'', JStr ''not ready''), (''error'', JStr ''db gone'')] 503)"
    by (simp add: readiness_check_unfold check_redis_None check_postgres_Some process_def
        postgres_failing_def)
  have code: "status_code (jsonify [(''status'', JStr ''not ready''),
      (''error'', JStr ''db gone'')] 503) \<noteq> 200"
    by (simp add: jsonify_def)
  from readiness_failure_status_field [OF run code] run show ?thesis by simp
qed

section \<open>Users\<close>

lemma users_unfold:
  "users ctx req =
     (if request_method req = ''GET'' then
        ([], Inr (Some (jsonify
          [(''users'', JArr
             [JObj [(''id'', JInt 1), (''name'', JStr ''John Doe''),
                    (''email'', JStr ''john@example.com'')],
              JObj [(''id'', JInt 2), (''name'', JStr ''Jane Smith''),
                    (''email'', JStr ''jane@example.com'')]])] 200)))
      else if request_method req = ''POST'' then
        (case get_json req of
           Inl e \<Rightarrow> ([], Inl e)
         | Inr user_data \<Rightarrow>
             ([], Inr (Some (jsonify
               [(''message'', JStr ''User created successfully''),
                (''user'', user_data)] 201))))
      else ([], Inr None))"
  by (simp add: users_def bind_def ret_def split: sum.split)

text \<open>
  C5. For every body that \<^verbatim>\<open>request.get_json()\<close> returns, whatever JSON value it is
  (an object, an array, a string, an integer, a float of any bit pattern, a boolean or
  null), the POST branch answers 201 with the message \<open>User created successfully\<close> and
  that same value under \<open>user\<close>. The body is not inspected and no collaborator is
  called: the event list is empty.
\<close>

theorem users_post_echoes_body:
  "users ctx \<lparr>request_method = ''POST'', get_json = Inr user_data\<rparr> =
     ([], Inr (Some \<lparr>status_code = 201,
        body = JObj [(''message'', JStr ''User created successfully''),
                     (''user'', user_data)]\<rparr>))"
  by (simp add: users_unfold jsonify_def)

text \<open>
  The spec's example body, and a body that holds the floats 1.5 and infinity, an array,
  null, a boolean and a negative integer.
\<close>

theorem users_post_echoes_body_witness:
  "users (process None None)
     \<lparr>request_method = ''POST'',
      get_json = Inr (JObj [(''name'', JStr ''Test User''),
                            (''email'', JStr ''test@example.com'')])\<rparr> =
     ([], Inr (Some \<lparr>status_code = 201,
        body = JObj [(''message'', JStr ''User created successfully''),
                     (''user'', JObj [(''name'', JStr ''Test User''),
                                      (''email'', JStr ''test@example.com'')])]\<rparr>)) \<and>
   users (process None None)
     \<lparr>request_method = ''POST'',
      get_json = Inr (JObj [(''ratio'', JFloat 0x3FF8000000000000),
                            (''limit'', JFloat 0x7FF0000000000000),
                            (''tags'', JArr [JNull, JBool True, JInt (- 7)])])\<rparr> =
     ([], Inr (Some \<lparr>status_code = 201,
        body = JObj [(''message'', JStr ''User created successfully''),
                     (''user'', JObj [(''ratio'', JFloat 0x3FF8000000000000),
                                      (''limit'', JFloat 0x7FF0000000000000),
                                      (''tags'', JArr [JNull, JBool True, JInt (- 7)])])]\<rparr>))"
  using users_post_echoes_body
    [of "process None None"
        "JObj [(''name'', JStr ''Test User''), (''email'', JStr ''test@example.com'')]"]
    users_post_echoes_body
    [of "process None None"
        "JObj [(''ratio'', JFloat 0x3FF8000000000000), (''limit'', JFloat 0x7FF0000000000000),
               (''tags'', JArr [JNull, JBool True, JInt (- 7)])]"]
  by simp

text \<open>
  C6. The GET branch answers 200 with the same list of two records whatever the state of
  the process and whatever else the request holds; the first record is John Doe's. It
  makes no call and logs nothing, so two calls give equal results.
\<close>

theorem users_get_fixed_list:
  "users ctx \<lparr>request_method = ''GET'', get_json = any_body\<rparr> =
     ([], Inr (Some \<lparr>status_code = 200,
        body = JObj [(''users'', JArr
          [JObj [(''id'', JInt 1), (''name'', JStr ''John Doe''),
                 (''email'', JStr ''john@example.com'')],
           JObj [(''id'', JInt 2), (''name'', JStr ''Jane Smith''),
                 (''email'', JStr ''jane@example.com'')]])]\<rparr>)) \<and>
   users ctx \<lparr>request_method = ''GET'', get_json = any_body\<rparr> =
     users other_ctx \<lparr>request_method = ''GET'', get_json = other_body\<rparr>"
  by (simp add: users_unfold jsonify_def)

section \<open>Cache\<close>

lemma get_cache_unfold:
  "get_cache ctx key =
     (case redis_client ctx of
        None \<Rightarrow> ([], Inr (jsonify [(''error'', JStr ''Redis not available'')] 503))
      | Some r \<Rightarrow>
          (case get r key of
             Inl e \<Rightarrow> ([RedisGet key], Inr (jsonify [(''error'', JStr (str e))] 500))
           | Inr None \<Rightarrow> ([RedisGet key], Inr (jsonify [(''error'', JStr ''Key not found'')] 404))
           | Inr (Some v) \<Rightarrow>
               (if v = [] then
                  ([RedisGet key], Inr (jsonify [(''error'', JStr ''Key not found'')] 404))
                else
                  ([RedisGet key],
                   Inr (jsonify [(''key'', JStr key), (''value'', JStr v)] 200)))))"
  by (simp add: get_cache_def try_except_def bind_def call_def ret_def truthy_def json_of_def
      split: option.split sum.split)


text \<open>
  C10. A key that the store holds with the empty string as its value is answered 404
  \<open>Key not found\<close>: the handler tests the truth value of what the lookup returned.
\<close>

theorem get_cache_empty_value_is_not_found:
  "redis_client ctx = Some r \<Longrightarrow> get r key = Inr (Some []) \<Longrightarrow>
   get_cache ctx key =
     ([RedisGet key], Inr \<lparr>status_code = 404, body = JObj [(''error'', JStr ''Key not found'')]\<rparr>)"
  by (simp add: get_cache_unfold jsonify_def)

theorem get_cache_empty_value_is_not_found_witness:
  "get_cache (process (Some (redis_holding [''motd'' \<mapsto> ''''])) (Some postgres_up)) ''motd'' =
     ([RedisGet ''motd''],
      Inr \<lparr>status_code = 404, body = JObj [(''error'', JStr ''Key not found'')]\<rparr>)"
proof -
  have handle: "redis_client (process (Some (redis_holding [''motd'' \<mapsto> ''''])) (Some postgres_up)) =
      Some (redis_holding [''motd'' \<mapsto> ''''])"
    by (simp add: process_def)
  have stored: "get (redis_holding [''motd'' \<mapsto> '''']) ''motd'' = Inr (Some [])"
    by (simp add: redis_holding_def)
  from get_cache_empty_value_is_not_found [OF handle stored] show ?thesis .
qed

text \<open>
  C2, as stated, at a key that is present in the store with the empty string as its
  value: the answer is 404, not 200 with the key and the value.
\<close>

theorem get_cache_present_key_not_200:
  "get (redis_holding [''greeting'' \<mapsto> '''']) ''greeting'' = Inr (Some '''') \<and>
   get_cache (process (Some (redis_holding [''greeting'' \<mapsto> ''''])) None) ''greeting'' =
     ([RedisGet ''greeting''], Inr (jsonify [(''error'', JStr ''Key not found'')] 404)) \<and>
   get_cache (process (Some (redis_holding [''greeting'' \<mapsto> ''''])) None) ''greeting'' \<noteq>
     ([RedisGet ''greeting''],
      Inr (jsonify [(''key'', JStr ''greeting''), (''value'', JStr '''')] 200))"
  by (simp add: get_cache_unfold process_def redis_holding_def jsonify_def)

text \<open>
  C2, amended. Without a cache handle the answer is 503 \<open>Redis not available\<close> and no
  call is made. With a handle: 200 with the key and the value when the lookup returns a
  non-empty value, 404 \<open>Key not found\<close> when the key is absent, 500 with the text of
  the exception when the lookup raises. A key that is absent, or a handle that is unset,
  is answered 404 or 503 and never 200.
\<close>

theorem get_cache_outcomes:
  "(redis_client ctx = None \<longrightarrow>
      get_cache ctx key =
        ([], Inr (jsonify [(''error'', JStr ''Redis not available'')] 503))) \<and>
   (\<forall>r v. redis_client ctx = Some r \<and> get r key = Inr (Some v) \<and> v \<noteq> [] \<longrightarrow>
      get_cache ctx key =
        ([RedisGet key], Inr (jsonify [(''key'', JStr key), (''value'', JStr v)] 200))) \<and>
   (\<forall>r. redis_client ctx = Some r \<and> get r key = Inr None \<longrightarrow>
      get_cache ctx key =
        ([RedisGet key], Inr (jsonify [(''error'', JStr ''Key not found'')] 404))) \<and>
   (\<forall>r e. redis_client ctx = Some r \<and> get r key = Inl e \<longrightarrow>
      get_cache ctx key =
        ([RedisGet key], Inr (jsonify [(''error'', JStr (str e))] 500))) \<and>
   ((redis_client ctx = None \<or> (\<exists>r. redis_client ctx = Some r \<and> get r key = Inr None)) \<longrightarrow>
      (\<exists>resp. snd (get_cache ctx key) = Inr resp \<and>
         (status_code resp = 404 \<or> status_code resp = 503) \<and> status_code resp \<noteq> 200))"
  by (auto simp: get_cache_unfold jsonify_def)

theorem get_cache_outcomes_witness:
  "get_cache (process None None) ''nonexistent'' =
     ([], Inr (jsonify [(''error'', JStr ''Redis not available'')] 503)) \<and>
   get_cache (process (Some (redis_holding [''colour'' \<mapsto> ''blue''])) None) ''colour'' =
     ([RedisGet ''colour''],
      Inr (jsonify [(''key'', JStr ''colour''), (''value'', JStr ''blue'')] 200)) \<and>
   get_cache (process (Some (redis_holding Map.empty)) None) ''nonexistent'' =
     ([RedisGet ''nonexistent''], Inr (jsonify [(''error'', JStr ''Key not found'')] 404)) \<and>
   get_cache (process (Some (redis_down ''Connection refused'')) None) ''colour'' =
     ([RedisGet ''colour''], Inr (jsonify [(''error'', JStr ''Connection refused'')] 500)) \<and>
   (\<exists>resp. snd (get_cache (process (Some (redis_holding Map.empty)) None) ''nonexistent'') =
        Inr resp \<and> (status_code resp = 404 \<or> status_code resp = 503) \<and>
      status_code resp \<noteq> 200)"
  using get_cache_outcomes [of "process None None" "''nonexistent''"]
    get_cache_outcomes [of "process (Some (redis_holding [''colour'' \<mapsto> ''blue''])) None" "''colour''"]
    get_cache_outcomes [of "process (Some (redis_holding Map.empty)) None" "''nonexistent''"]
    get_cache_outcomes [of "process (Some (redis_down ''Connection refused'')) None" "''colour''"]
  by (auto simp: process_def redis_holding_def redis_down_def)

section \<open>Liveness\<close>

lemma below_ten:
  "(k::nat) < 10 \<Longrightarrow>
   k = 0 \<or> k = 1 \<or> k = 2 \<or> k = 3 \<or> k = 4 \<or> k = 5 \<or> k = 6 \<or> k = 7 \<or> k = 8 \<or> k = 9"
  by (simp add: numeral_eq_Suc less_Suc_eq)

lemma digit_table: "k < 10 \<Longrightarrow> is_digit (''0123456789'' ! k)"
  unfolding is_digit_def by (drule below_ten) (elim disjE; simp)

lemma is_digit_digit: "is_digit (digit n)"
  unfolding digit_def by (rule digit_table) simp

lemma is_digit_zero: "is_digit CHR ''0''"
  by (simp add: is_digit_def)

lemma decimal_all_digits: "list_all is_digit (decimal n)"
proof (induction n rule: decimal.induct)
  case (1 n)
  then show ?case
    by (subst decimal.simps) (simp add: is_digit_digit)
qed

lemma decimal_nonempty: "decimal n \<noteq> []"
  by (subst decimal.simps) simp

lemma length_decimal: "n < 10 ^ k \<Longrightarrow> 0 < k \<Longrightarrow> length (decimal n) \<le> k"
proof (induction n arbitrary: k rule: decimal.induct)
  case (1 n)
  show ?case
  proof (cases "n < 10")
    case True
    with "1.prems" show ?thesis by (subst decimal.simps) simp
  next
    case False
    from "1.prems" obtain j where k: "k = Suc j" by (cases k) auto
    from False "1.prems" k have j: "0 < j" by (cases j) auto
    from "1.prems" k have "n div 10 < 10 ^ j"
      by (simp add: less_mult_imp_div_less mult.commute)
    from "1.IH" [OF False this j] k False show ?thesis
      by (subst decimal.simps) simp
  qed
qed

lemma digits_zero_pad: "n < 10 ^ w \<Longrightarrow> 0 < w \<Longrightarrow> digits w (zero_pad w n)"
  using length_decimal [of n w] decimal_all_digits [of n]
  by (auto simp: digits_def zero_pad_def list_all_iff is_digit_zero)

lemma isoformat_nonempty: "isoformat d \<noteq> []"
  by (simp add: isoformat_def)

lemma iso8601_pieces:
  assumes "digits 4 y" "digits 2 mo" "digits 2 dd" "digits 2 h" "digits 2 mi" "digits 2 s"
    and "f = [] \<or> (\<exists>u. f = ''.'' @ u \<and> digits 6 u)"
  shows "iso8601 (y @ ''-'' @ mo @ ''-'' @ dd @ ''T'' @ h @ '':'' @ mi @ '':'' @ s @ f)"
  using assms by (auto simp: iso8601_def digits_def)

lemma iso8601_isoformat: "valid_datetime d \<Longrightarrow> iso8601 (isoformat d)"
  unfolding isoformat_def
  by (rule iso8601_pieces) (auto simp: valid_datetime_def intro!: digits_zero_pad)

lemma isoformat_noon: "isoformat noon = ''2024-05-17T12:00:00''"
  by code_simp

text \<open>
  C7. The liveness probe always answers 200 with \<open>status\<close> equal to \<open>healthy\<close>, the
  current time in ISO form under \<open>timestamp\<close> and the version under \<open>version\<close>. The
  timestamp is never empty, and has the ISO-8601 shape for every time the clock can
  show. The handler has one path, makes no call, and its answer does not change with the
  two collaborator handles.
\<close>

theorem health_check_always_healthy:
  "health_check ctx =
     ([], Inr \<lparr>status_code = 200,
        body = JObj [(''status'', JStr ''healthy''),
                     (''timestamp'', JStr (isoformat (utcnow ctx))),
                     (''version'', JStr (getenv (environ ctx) ''APP_VERSION'' ''1.0.0''))]\<rparr>) \<and>
   isoformat (utcnow ctx) \<noteq> [] \<and>
   (valid_datetime (utcnow ctx) \<longrightarrow> iso8601 (isoformat (utcnow ctx))) \<and>
   health_check (ctx\<lparr>redis_client := rc, postgres_conn := pc\<rparr>) = health_check ctx"
  by (simp add: health_check_def ret_def jsonify_def isoformat_nonempty iso8601_isoformat)

theorem health_check_always_healthy_witness:
  "valid_datetime noon \<and> iso8601 ''2024-05-17T12:00:00'' \<and>
   health_check (process (Some (redis_down ''Connection refused''))
                   (Some (postgres_failing ''db gone''))) =
     ([], Inr \<lparr>status_code = 200,
        body = JObj [(''status'', JStr ''healthy''),
                     (''timestamp'', JStr ''2024-05-17T12:00:00''),
                     (''version'', JStr ''1.0.0'')]\<rparr>) \<and>
   health_check (process (Some (redis_down ''Connection refused''))
                   (Some (postgres_failing ''db gone''))) =
     health_check (process None None)"
proof -
  have v: "valid_datetime noon"
    by (simp add: valid_datetime_def noon_def)
  from health_check_always_healthy
      [where ctx = "process None None" and rc = "Some (redis_down ''Connection refused'')"
         and pc = "Some (postgres_failing ''db gone'')"] v
  show ?thesis
    by (simp add: process_def isoformat_noon getenv_def)
qed

section \<open>Failure responses\<close>

lemma error_envelope_first: "error_envelope (jsonify ((''error'', JStr s) # kvs) c)"
  by (simp add: error_envelope_def jsonify_def)

lemma error_envelope_second:
  "error_envelope (jsonify [(''status'', x), (''error'', JStr s)] c)"
  by (simp add: error_envelope_def jsonify_def)

lemma status_code_jsonify: "status_code (jsonify kvs c) = c"
  by (simp add: jsonify_def)

lemma readiness_check_enveloped:
  "\<exists>r. snd (readiness_check ctx) = Inr r \<and>
       (status_code r \<noteq> 200 \<longrightarrow> status_code r = 503 \<and> error_envelope r)"
proof (cases "check_redis (redis_client ctx)")
  case (Pair t1 r1)
  show ?thesis
  proof (cases r1)
    case (Inl e)
    with Pair show ?thesis
      by (simp add: readiness_check_unfold status_code_jsonify error_envelope_second)
  next
    case (Inr u)
    with Pair show ?thesis
      by (cases "check_postgres (postgres_conn ctx)")
         (auto simp: readiness_check_unfold status_code_jsonify error_envelope_second
           split: sum.split)
  qed
qed

lemma get_cache_enveloped:
  "\<exists>r. snd (get_cache ctx key) = Inr r \<and>
       (status_code r \<noteq> 200 \<longrightarrow> status_code r \<in> {404, 500, 503} \<and> error_envelope r)"
proof (cases "redis_client ctx")
  case None
  then show ?thesis
    by (simp add: get_cache_unfold status_code_jsonify error_envelope_first)
next
  case (Some r)
  show ?thesis
  proof (cases "get r key")
    case (Inl e)
    with Some show ?thesis
      by (simp add: get_cache_unfold status_code_jsonify error_envelope_first)
  next
    case (Inr v)
    with Some show ?thesis
      by (cases v)
         (simp_all add: get_cache_unfold status_code_jsonify error_envelope_first)
  qed
qed

lemma users_built_response:
  "built_response (snd (users ctx req)) = Some r \<Longrightarrow> status_code r = 200 \<or> status_code r = 201"
  by (auto simp: users_unfold built_response_def jsonify_def split: if_splits sum.splits)

text \<open>
  C8, as stated, at a POST whose body does not parse: \<^verbatim>\<open>request.get_json()\<close> raises
  the 400 error, the handler has no \<^verbatim>\<open>try\<close> around the call and the module registers
  no error handler, so the exception leaves the handler and the component builds no
  response, hence no JSON envelope, for this failure.
\<close>

theorem users_malformed_body_escapes:
  "users (process None None)
     \<lparr>request_method = ''POST'', get_json = Inl (HTTPException 400 ''Bad Request'')\<rparr> =
     ([], Inl (HTTPException 400 ''Bad Request'')) \<and>
   built_response (snd (users (process None None)
     \<lparr>request_method = ''POST'', get_json = Inl (HTTPException 400 ''Bad Request'')\<rparr>)) = None"
  by (simp add: users_unfold built_response_def)

text \<open>
  C8, amended. Every failure response that a handler builds is an error envelope: the
  503 of the readiness check and the 404, 500 and 503 of the cache lookup, and these two
  handlers always return a response. The liveness probe always answers 200, and a
  response built by the users handler is a 200 or a 201. For a POST whose body does
  not parse, the exception of \<^verbatim>\<open>get_json\<close> leaves the users handler: the 400 is
  made by the framework, as the 404 of an unmatched route is.
\<close>

theorem built_failures_are_enveloped:
  "(\<exists>r. snd (readiness_check ctx) = Inr r \<and>
        (status_code r \<noteq> 200 \<longrightarrow> status_code r = 503 \<and> error_envelope r)) \<and>
   (\<exists>r. snd (get_cache ctx key) = Inr r \<and>
        (status_code r \<noteq> 200 \<longrightarrow> status_code r \<in> {404, 500, 503} \<and> error_envelope r)) \<and>
   (\<exists>r. snd (health_check ctx) = Inr r \<and> status_code r = 200) \<and>
   (\<forall>r. built_response (snd (users ctx req)) = Some r \<longrightarrow>
        status_code r = 200 \<or> status_code r = 201) \<and>
   (\<forall>e. request_method req = ''POST'' \<and> get_json req = Inl e \<longrightarrow>
        users ctx req = ([], Inl e) \<and> built_response (snd (users ctx req)) = None)"
proof (intro conjI allI impI)
  show "\<exists>r. snd (readiness_check ctx) = Inr r \<and>
        (status_code r \<noteq> 200 \<longrightarrow> status_code r = 503 \<and> error_envelope r)"
    by (rule readiness_check_enveloped)
  show "\<exists>r. snd (get_cache ctx key) = Inr r \<and>
        (status_code r \<noteq> 200 \<longrightarrow> status_code r \<in> {404, 500, 503} \<and> error_envelope r)"
    by (rule get_cache_enveloped)
  show "\<exists>r. snd (health_check ctx) = Inr r \<and> status_code r = 200"
    by (simp add: health_check_def ret_def jsonify_def)
next
  fix r
  assume "built_response (snd (users ctx req)) = Some r"
  then show "status_code r = 200 \<or> status_code r = 201"
    by (rule users_built_response)
next
  fix e
  assume post: "request_method req = ''POST'' \<and> get_json req = Inl e"
  then show "users ctx req = ([], Inl e)"
    by (simp add: users_unfold)
  from post show "built_response (snd (users ctx req)) = None"
    by (simp add: users_unfold built_response_def)
qed

theorem built_failures_are_enveloped_witness:
  "(\<exists>r. snd (readiness_check (process (Some (redis_down ''Connection refused'')) None)) = Inr r \<and>
        status_code r = 503 \<and> error_envelope r) \<and>
   (\<exists>r. snd (get_cache (process (Some (redis_down ''Connection refused'')) None) ''colour'') =
          Inr r \<and> status_code r = 500 \<and> error_envelope r) \<and>
   users (process (Some (redis_down ''Connection refused'')) None)
     \<lparr>request_method = ''POST'', get_json = Inl (HTTPException 400 ''Bad Request'')\<rparr> =
     ([], Inl (HTTPException 400 ''Bad Request'')) \<and>
   built_response (snd (users (process (Some (redis_down ''Connection refused'')) None)
     \<lparr>request_method = ''GET'', get_json = Inr JNull\<rparr>)) \<noteq> None"
proof -
  let ?ctx = "process (Some (redis_down ''Connection refused'')) None"
  let ?bad = "\<lparr>request_method = ''POST'', get_json = Inl (HTTPException 400 ''Bad Request'')\<rparr>"
  note all = built_failures_are_enveloped [of ?ctx "''colour''" ?bad]
  have ready: "snd (readiness_check ?ctx) =
      Inr (jsonify [(''status'', JStr ''not ready''), (''error'', JStr ''Connection refused'')] 503)"
    by (simp add: readiness_check_unfold check_redis_Some process_def redis_down_def)
  have cache: "snd (get_cache ?ctx ''colour'') =
      Inr (jsonify [(''error'', JStr ''Connection refused'')] 500)"
    by (simp add: get_cache_unfold process_def redis_down_def)
  have listing: "built_response (snd (users ?ctx \<lparr>request_method = ''GET'', get_json = Inr JNull\<rparr>))
      \<noteq> None"
    by (simp add: users_unfold built_response_def)
  from all ready cache listing show ?thesis
    by (simp add: jsonify_def)
qed

end
